theory Spec2Isabelle
  imports Main "HOL-Library.Word"
begin

unbundle bit_operations_syntax

section \<open>Python values and the runtime operations used by \<open>blocks.py\<close>\<close>

text \<open>
  A block is the dictionary decoded from the editor's JSON, so its fields hold arbitrary
  JSON values: \<open>null\<close>, booleans, integers, floats, strings, arrays and objects. A float is
  kept as the bit pattern of its IEEE double. A dictionary is an association list in
  insertion order whose keys are distinct; a lookup takes the first binding of a key.
\<close>

datatype pyval =
    PNone
  | PBool bool
  | PInt int
  | PFloat "64 word"
  | PStr string
  | PList "pyval list"
  | PDict "(string \<times> pyval) list"

text \<open>
  The exceptions that the module can raise: its own \<open>EditorJsParseError\<close> (with its
  message) and the interpreter's \<open>AttributeError\<close>, \<open>TypeError\<close> and \<open>KeyError\<close> (with the
  missing key).
\<close>

datatype error =
    EditorJsParseError string
  | AttributeError
  | TypeError
  | KeyError string

definition bind_err :: "error + 'a \<Rightarrow> ('a \<Rightarrow> error + 'b) \<Rightarrow> error + 'b" where
  "bind_err m f = (case m of Inl e \<Rightarrow> Inl e | Inr x \<Rightarrow> f x)"

text \<open>
  What the module takes from outside its own source: the third-party function
  \<open>bleach.clean(text, tags, attributes)\<close> on strings, and the interpreter's \<open>str()\<close> of a
  float, a list or a dictionary. They are parameters of the model.
\<close>

record runtime =
  bleach_clean :: "string \<Rightarrow> string list \<Rightarrow> string list \<Rightarrow> string"
  str_other :: "pyval \<Rightarrow> string"

text \<open>
  A runtime to evaluate the variants on concrete blocks whose texts \<open>bleach.clean\<close> returns
  as they are (no markup, or the allowed \<open><br>\<close> only) and whose formatted fields are
  \<open>None\<close>, booleans, integers or strings.
\<close>

definition plain_runtime :: runtime where
  "plain_runtime = \<lparr>bleach_clean = (\<lambda>text tags attributes. text), str_other = (\<lambda>v. [])\<rparr>"

subsection \<open>\<open>str()\<close>, as an f-string applies it to a replacement field\<close>

definition digit_char :: "nat \<Rightarrow> char" where
  "digit_char d = ''0123456789'' ! d"

function str_nat :: "nat \<Rightarrow> string" where
  "str_nat n = (if n < 10 then [digit_char n] else str_nat (n div 10) @ [digit_char (n mod 10)])"
  by pat_completeness auto
termination
  by (relation "measure (\<lambda>n. n)") auto

definition str_int :: "int \<Rightarrow> string" where
  "str_int i = (if i < 0 then CHR ''-'' # str_nat (nat (- i)) else str_nat (nat i))"

fun py_str :: "runtime \<Rightarrow> pyval \<Rightarrow> string" where
  "py_str rt PNone = ''None''"
| "py_str rt (PBool b) = (if b then ''True'' else ''False'')"
| "py_str rt (PInt i) = str_int i"
| "py_str rt (PStr s) = s"
| "py_str rt v = str_other rt v"

subsection \<open>Truth value, \<open>isinstance(v, int)\<close>, \<open>v in range(lo, hi)\<close>\<close>

fun py_bool :: "pyval \<Rightarrow> bool" where
  "py_bool PNone = False"
| "py_bool (PBool b) = b"
| "py_bool (PInt i) = (i \<noteq> 0)"
| "py_bool (PFloat w) = (push_bit 1 w \<noteq> 0)"
| "py_bool (PStr s) = (s \<noteq> [])"
| "py_bool (PList xs) = (xs \<noteq> [])"
| "py_bool (PDict kvs) = (kvs \<noteq> [])"

text \<open>\<open>bool\<close> is a subclass of \<open>int\<close>: \<open>isinstance(True, int)\<close> holds and \<open>True == 1\<close>.\<close>

fun isinstance_int :: "pyval \<Rightarrow> bool" where
  "isinstance_int (PInt i) = True"
| "isinstance_int (PBool b) = True"
| "isinstance_int v = False"

fun in_range :: "pyval \<Rightarrow> int \<Rightarrow> int \<Rightarrow> bool" where
  "in_range (PInt i) lo hi = (lo \<le> i \<and> i < hi)"
| "in_range (PBool b) lo hi = (lo \<le> (if b then 1 else 0) \<and> (if b then 1 else 0) < hi)"
| "in_range v lo hi = False"

subsection \<open>Dictionary access\<close>

text \<open>\<open>v.get(k, d)\<close>: only a dictionary has the method.\<close>

fun py_get :: "pyval \<Rightarrow> string \<Rightarrow> pyval \<Rightarrow> error + pyval" where
  "py_get (PDict kvs) k d = Inr (case map_of kvs k of None \<Rightarrow> d | Some v \<Rightarrow> v)"
| "py_get v k d = Inl AttributeError"

text \<open>\<open>v[k]\<close> with a string key \<open>k\<close>.\<close>

fun py_getitem :: "pyval \<Rightarrow> string \<Rightarrow> error + pyval" where
  "py_getitem (PDict kvs) k = (case map_of kvs k of None \<Rightarrow> Inl (KeyError k) | Some v \<Rightarrow> Inr v)"
| "py_getitem v k = Inl TypeError"


subsection \<open>String methods\<close>

definition startswith :: "string \<Rightarrow> string \<Rightarrow> bool" where
  "startswith s p = (take (length p) s = p)"

definition endswith :: "string \<Rightarrow> string \<Rightarrow> bool" where
  "endswith s p = (length p \<le> length s \<and> drop (length s - length p) s = p)"

text \<open>\<open>p in s\<close> for strings.\<close>

fun str_contains :: "string \<Rightarrow> string \<Rightarrow> bool" where
  "str_contains p [] = (p = [])"
| "str_contains p (c # cs) = (startswith (c # cs) p \<or> str_contains p cs)"

text \<open>\<open>s.replace(old, new)\<close>: left to right, without overlaps; an empty \<open>old\<close> matches
  before every character and at the end.\<close>

function replace :: "string \<Rightarrow> string \<Rightarrow> string \<Rightarrow> string" where
  "replace old new s =
     (if old = [] then new @ concat (map (\<lambda>c. c # new) s)
      else if s = [] then []
      else if startswith s old then new @ replace old new (drop (length old) s)
      else hd s # replace old new (tl s))"
  by pat_completeness auto
termination
  by (relation "measure (\<lambda>(old, new, s). length s)") auto

text \<open>\<open>sep.join(xs)\<close> for a list of strings.\<close>

fun str_join :: "string \<Rightarrow> string list \<Rightarrow> string" where
  "str_join sep [] = []"
| "str_join sep [x] = x"
| "str_join sep (x # y # ys) = x @ sep @ str_join sep (y # ys)"

text \<open>The method of a string called on a value: any other value has no such attribute.\<close>

fun py_startswith :: "pyval \<Rightarrow> string \<Rightarrow> error + bool" where
  "py_startswith (PStr s) p = Inr (startswith s p)"
| "py_startswith v p = Inl AttributeError"

text \<open>\<open>p in v\<close> for a string \<open>p\<close>: a substring of a string, an element of a list, a key of a
  dictionary.\<close>

fun py_contains :: "string \<Rightarrow> pyval \<Rightarrow> error + bool" where
  "py_contains p (PStr s) = Inr (str_contains p s)"
| "py_contains p (PList xs) = Inr (PStr p \<in> set xs)"
| "py_contains p (PDict kvs) = Inr (p \<in> set (map fst kvs))"
| "py_contains p v = Inl TypeError"

section \<open>The sanitizers\<close>

text \<open>
  \<open>_sanitize\<close> and \<open>_clean\<close> (an identifier cannot start with an underscore here, hence the
  prefix \<open>u\<close>). On a string they are the two calls of \<open>bleach.clean\<close>.
\<close>

definition u_sanitize_str :: "runtime \<Rightarrow> string \<Rightarrow> string" where
  "u_sanitize_str rt html =
     bleach_clean rt html
       [''b'', ''i'', ''u'', ''a'', ''mark'', ''code'', ''s'', ''del'', ''br'', ''span'']
       [''class'', ''data-placeholder'', ''href'', ''data-title'', ''data-text'']"

definition u_clean_str :: "runtime \<Rightarrow> string \<Rightarrow> string" where
  "u_clean_str rt html = bleach_clean rt (replace ''<br>'' [CHR 0x0A] html) [] []"

text \<open>
  On any other value they raise: \<open>bleach.clean\<close> rejects an argument that is not a string
  with a \<open>TypeError\<close>, and \<open>_clean\<close> calls the string method \<open>replace\<close> on its argument
  first, which no other value has.
\<close>

fun u_sanitize :: "runtime \<Rightarrow> pyval \<Rightarrow> error + string" where
  "u_sanitize rt (PStr html) = Inr (u_sanitize_str rt html)"
| "u_sanitize rt v = Inl TypeError"

fun u_clean :: "runtime \<Rightarrow> pyval \<Rightarrow> error + string" where
  "u_clean rt (PStr html) = Inr (u_clean_str rt html)"
| "u_clean rt v = Inl AttributeError"

text \<open>The expression \<open>_sanitize(x) if sanitize else x\<close>, which every variant uses.\<close>

definition sanitized :: "runtime \<Rightarrow> bool \<Rightarrow> pyval \<Rightarrow> error + pyval" where
  "sanitized rt sanitize x =
     (if sanitize then bind_err (u_sanitize rt x) (\<lambda>s. Inr (PStr s)) else Inr x)"

section \<open>\<open>EditorJsBlock\<close>\<close>

type_synonym EditorJsBlock = "(string \<times> pyval) list"

definition data :: "EditorJsBlock \<Rightarrow> pyval" where
  "data b = (case map_of b ''data'' of None \<Rightarrow> PDict [] | Some v \<Rightarrow> v)"

definition tunes :: "EditorJsBlock \<Rightarrow> pyval" where
  "tunes b = (case map_of b ''tunes'' of None \<Rightarrow> PDict [] | Some v \<Rightarrow> v)"

section \<open>The block variants\<close>

text \<open>
  Each property of a variant is the \<open>get\<close> of one key of \<open>self.data\<close> with the default the
  source gives. A property is read again at each use in the source; the reads are pure,
  so the model binds a property where the source reads it first.
\<close>

subsection \<open>\<open>CodeBlock\<close>\<close>

definition CodeBlock_text :: "EditorJsBlock \<Rightarrow> error + pyval" where
  "CodeBlock_text b = py_get (data b) ''code'' PNone"

definition CodeBlock_html :: "runtime \<Rightarrow> EditorJsBlock \<Rightarrow> bool \<Rightarrow> error + string" where
  \<open>CodeBlock_html rt b sanitize =
     bind_err (CodeBlock_text b) (\<lambda>text.
       Inr (''<div class="cdx-block ce-code"><pre>'' @ py_str rt text @ ''</pre></div>''))\<close>

subsection \<open>\<open>HeaderBlock\<close>\<close>

definition HeaderBlock_text :: "EditorJsBlock \<Rightarrow> error + pyval" where
  "HeaderBlock_text b = py_get (data b) ''text'' PNone"

definition HeaderBlock_level :: "runtime \<Rightarrow> EditorJsBlock \<Rightarrow> error + pyval" where
  \<open>HeaderBlock_level rt b =
     bind_err (py_get (data b) ''level'' (PInt 1)) (\<lambda>level.
       if \<not> isinstance_int level \<or> \<not> in_range level 1 7
       then Inl (EditorJsParseError (''`'' @ py_str rt level @ ''` is not a valid header level.''))
       else Inr level)\<close>

definition HeaderBlock_html :: "runtime \<Rightarrow> EditorJsBlock \<Rightarrow> bool \<Rightarrow> error + string" where
  \<open>HeaderBlock_html rt b sanitize =
     bind_err (HeaderBlock_level rt b) (\<lambda>level.
     bind_err (HeaderBlock_text b) (\<lambda>text.
     bind_err (sanitized rt sanitize text) (\<lambda>body.
     bind_err (HeaderBlock_level rt b) (\<lambda>level2.
       Inr (''<h'' @ py_str rt level @ '' class="cdx-block ce-header">'' @ py_str rt body
            @ ''</h'' @ py_str rt level2 @ ''>'')))))\<close>

subsection \<open>\<open>ParagraphBlock\<close>\<close>

definition ParagraphBlock_text :: "EditorJsBlock \<Rightarrow> error + pyval" where
  "ParagraphBlock_text b = py_get (data b) ''text'' PNone"

definition ParagraphBlock_html :: "runtime \<Rightarrow> EditorJsBlock \<Rightarrow> bool \<Rightarrow> error + string" where
  \<open>ParagraphBlock_html rt b sanitize =
     bind_err (py_get (tunes b) ''AlignmentTune'' (PDict [(''alignment'', PStr ''left'')])) (\<lambda>tune.
     bind_err (py_getitem tune ''alignment'') (\<lambda>alignment.
     bind_err (ParagraphBlock_text b) (\<lambda>text.
     bind_err (sanitized rt sanitize text) (\<lambda>body.
       let classes = [''cdx-block'', ''ce-paragraph'']
       in Inr (''<p style="text-align: '' @ py_str rt alignment
               @ ''" class="'' @ str_join '' '' classes @ ''">'' @ py_str rt body @ ''</p>'')))))\<close>

subsection \<open>\<open>WarningBlock\<close>\<close>

definition WarningBlock_title :: "EditorJsBlock \<Rightarrow> error + pyval" where
  "WarningBlock_title b = py_get (data b) ''title'' PNone"

definition WarningBlock_message :: "EditorJsBlock \<Rightarrow> error + pyval" where
  "WarningBlock_message b = py_get (data b) ''message'' PNone"

definition WarningBlock_html :: "runtime \<Rightarrow> EditorJsBlock \<Rightarrow> bool \<Rightarrow> error + string" where
  \<open>WarningBlock_html rt b sanitize =
     bind_err (WarningBlock_title b) (\<lambda>title0.
     bind_err (sanitized rt sanitize title0) (\<lambda>title.
     bind_err (WarningBlock_message b) (\<lambda>message0.
     bind_err (sanitized rt sanitize message0) (\<lambda>message.
       Inr (''<div class="cdx-block ce-warning">''
            @ ''  <blockquote class="ce-warning__blockquote">''
            @ (if py_bool title
               then ''    <b class="ce-warning__title">'' @ py_str rt title @ ''</b>'' else [])
            @ (if py_bool message
               then ''    <div class="ce-warning__message">'' @ py_str rt message @ ''</div>''
               else [])
            @ ''  </blockquote>''
            @ ''</div>'')))))\<close>

subsection \<open>The caption of a quote, an embed and a media block\<close>

text \<open>
  The two lines \<open>if caption.endswith('<br>'): caption = caption[:-4]\<close>, which the three
  variants share. \<open>endswith\<close> is a method of strings only.
\<close>

definition strip_br_str :: "string \<Rightarrow> string" where
  "strip_br_str caption =
     (if endswith caption ''<br>'' then take (length caption - 4) caption else caption)"

fun strip_br :: "pyval \<Rightarrow> error + string" where
  "strip_br (PStr caption) = Inr (strip_br_str caption)"
| "strip_br v = Inl AttributeError"

subsection \<open>\<open>QuoteBlock\<close>\<close>

definition QuoteBlock_text :: "EditorJsBlock \<Rightarrow> error + pyval" where
  "QuoteBlock_text b = py_get (data b) ''text'' PNone"

definition QuoteBlock_alignment :: "EditorJsBlock \<Rightarrow> error + pyval" where
  "QuoteBlock_alignment b = py_get (data b) ''alignment'' PNone"

definition QuoteBlock_caption :: "EditorJsBlock \<Rightarrow> error + pyval" where
  "QuoteBlock_caption b = py_get (data b) ''caption'' PNone"

definition QuoteBlock_html :: "runtime \<Rightarrow> EditorJsBlock \<Rightarrow> bool \<Rightarrow> error + string" where
  \<open>QuoteBlock_html rt b sanitize =
     bind_err (QuoteBlock_caption b) (\<lambda>self_caption.
     bind_err (sanitized rt sanitize self_caption) (\<lambda>caption0.
     bind_err (strip_br caption0) (\<lambda>caption.
     bind_err (if caption \<noteq> []
               then bind_err (sanitized rt sanitize (PStr caption)) (\<lambda>c.
                      Inr (''<cite class="ce-quote__caption">'' @ py_str rt c @ ''</cite>''))
               else Inr []) (\<lambda>cite.
     bind_err (QuoteBlock_alignment b) (\<lambda>alignment.
     bind_err (QuoteBlock_text b) (\<lambda>text.
     bind_err (sanitized rt sanitize text) (\<lambda>body.
       Inr (''<div class="cdx-block ce-quote ce-quote-with-align-'' @ py_str rt alignment
            @ (if py_bool self_caption then '' ce-quote-with-caption'' else []) @ ''">''
            @ ''      <blockquote class="ce-quote__blockquote">''
            @ py_str rt body
            @ cite
            @ ''      </blockquote>''
            @ ''</div>''))))))))\<close>

subsection \<open>\<open>ListBlock\<close>\<close>






subsection \<open>\<open>DelimiterBlock\<close> and \<open>RawBlock\<close>\<close>

definition DelimiterBlock_html :: "runtime \<Rightarrow> EditorJsBlock \<Rightarrow> bool \<Rightarrow> error + string" where
  \<open>DelimiterBlock_html rt b sanitize = Inr ''<div class="cdx-block ce-delimiter"><hr/></div>''\<close>

definition RawBlock_html :: "runtime \<Rightarrow> EditorJsBlock \<Rightarrow> bool \<Rightarrow> error + string" where
  \<open>RawBlock_html rt b sanitize =
     bind_err (py_get (data b) ''html'' (PStr [])) (\<lambda>html.
       Inr (''<div class="cdx-block ce-raw">'' @ py_str rt html @ ''</div>''))\<close>

subsection \<open>\<open>EmbedBlock\<close>\<close>

definition EmbedBlock_service :: "EditorJsBlock \<Rightarrow> error + pyval" where
  "EmbedBlock_service b = py_get (data b) ''service'' (PStr [])"

definition EmbedBlock_source :: "EditorJsBlock \<Rightarrow> error + pyval" where
  "EmbedBlock_source b = py_get (data b) ''source'' (PStr [])"

definition EmbedBlock_embed :: "EditorJsBlock \<Rightarrow> error + pyval" where
  "EmbedBlock_embed b = py_get (data b) ''embed'' (PStr [])"

definition EmbedBlock_caption :: "EditorJsBlock \<Rightarrow> error + pyval" where
  "EmbedBlock_caption b = py_get (data b) ''caption'' PNone"

definition EmbedBlock_html :: "runtime \<Rightarrow> EditorJsBlock \<Rightarrow> bool \<Rightarrow> error + string" where
  \<open>EmbedBlock_html rt b sanitize =
     bind_err (EmbedBlock_caption b) (\<lambda>self_caption.
     bind_err (sanitized rt sanitize self_caption) (\<lambda>caption0.
     bind_err (strip_br caption0) (\<lambda>caption.
     bind_err (EmbedBlock_service b) (\<lambda>service.
     bind_err (if service = PStr ''youtube''
               then bind_err (EmbedBlock_embed b) (\<lambda>embed.
                      Inr (''<iframe src="'' @ py_str rt embed
                           @ ''" width="100%" style="aspect-ratio: 16/9" ''
                           @ ''frameborder="0" allow="accelerometer; autoplay; ''
                           @ ''clipboard-write; encrypted-media; gyroscope; picture-in-picture; web-share" ''
                           @ ''allowfullscreen></iframe>''))
               else if service = PStr ''twitter''
               then bind_err (EmbedBlock_source b) (\<lambda>source.
                      Inr (''<blockquote class="twitter-tweet">''
                           @ ''<blockquote class="twitter-tweet"><a href="'' @ py_str rt source
                           @ ''"></a></blockquote>''
                           @ ''<script async src="https://platform.twitter.com/widgets.js" charset="utf-8"></script>''))
               else Inr []) (\<lambda>media.
       Inr (''<div class="cdx-block embed-tool embed-tool-'' @ py_str rt service @ ''">''
            @ ''<figure>''
            @ ''<div class="embed-tool__embed">''
            @ media
            @ ''</div>''
            @ ''<figcaption class="embed-tool__caption">'' @ caption @ ''</figcaption>''
            @ ''</figure>''
            @ ''</div>''))))))\<close>

subsection \<open>\<open>MediaBlock\<close>\<close>

definition MediaBlock_file_mimetype :: "EditorJsBlock \<Rightarrow> error + pyval" where
  "MediaBlock_file_mimetype b =
     bind_err (py_get (data b) ''file'' (PDict [])) (\<lambda>file. py_get file ''mimetype'' PNone)"

definition MediaBlock_file_url :: "EditorJsBlock \<Rightarrow> error + pyval" where
  "MediaBlock_file_url b =
     bind_err (py_get (data b) ''file'' (PDict [])) (\<lambda>file. py_get file ''urls'' PNone)"

definition MediaBlock_caption :: "EditorJsBlock \<Rightarrow> error + pyval" where
  "MediaBlock_caption b = py_get (data b) ''caption'' PNone"

definition MediaBlock_with_border :: "EditorJsBlock \<Rightarrow> error + pyval" where
  "MediaBlock_with_border b = py_get (data b) ''withBorder'' (PBool False)"

definition MediaBlock_stretched :: "EditorJsBlock \<Rightarrow> error + pyval" where
  "MediaBlock_stretched b = py_get (data b) ''stretched'' (PBool False)"

definition MediaBlock_with_background :: "EditorJsBlock \<Rightarrow> error + pyval" where
  "MediaBlock_with_background b = py_get (data b) ''withBackground'' (PBool False)"

text \<open>The value bound to \<open>srcset\<close>: the formatted string, or the empty list for an SVG.\<close>

definition MediaBlock_srcset :: "runtime \<Rightarrow> pyval \<Rightarrow> pyval \<Rightarrow> error + pyval" where
  \<open>MediaBlock_srcset rt url mimetype =
     bind_err (py_contains ''image/svg'' mimetype) (\<lambda>svg.
       if \<not> svg
       then bind_err (py_get url ''normal'' PNone) (\<lambda>normal.
            bind_err (py_get url ''medium'' PNone) (\<lambda>medium.
            bind_err (py_get url ''small'' PNone) (\<lambda>small.
              Inr (PStr (py_str rt normal @ '' 1080w, '' @ py_str rt medium @ '' 720w, ''
                         @ py_str rt small @ '' 480w'')))))
       else Inr (PList []))\<close>

text \<open>The elements that the \<open>if\<close>/\<open>elif\<close> on the mimetype appends to \<open>parts\<close>.\<close>

definition MediaBlock_media :: "runtime \<Rightarrow> pyval \<Rightarrow> pyval \<Rightarrow> string \<Rightarrow> error + string" where
  \<open>MediaBlock_media rt url mimetype caption =
     bind_err (py_startswith mimetype ''image'') (\<lambda>image.
       if image
       then bind_err (MediaBlock_srcset rt url mimetype) (\<lambda>srcset.
            bind_err (py_get url ''full'' (PStr [])) (\<lambda>full.
            bind_err (u_clean rt (PStr caption)) (\<lambda>alt.
              Inr (''     <img class="media-tool__media-picture" src="'' @ py_str rt full @ ''" ''
                   @ (if py_bool srcset then ''srcset="'' @ py_str rt srcset @ ''" '' else [])
                   @ ''alt="'' @ alt @ ''" />''))))
       else bind_err (py_startswith mimetype ''video'') (\<lambda>video.
              if video
              then bind_err (py_get url ''full'' (PStr [])) (\<lambda>full.
                     Inr (''     <video class="media-tool__media-picture" src="'' @ py_str rt full
                          @ ''" controls=""></video>''))
              else Inr []))\<close>

definition MediaBlock_html :: "runtime \<Rightarrow> EditorJsBlock \<Rightarrow> bool \<Rightarrow> error + string" where
  \<open>MediaBlock_html rt b sanitize =
     bind_err (MediaBlock_file_url b) (\<lambda>url.
     bind_err (MediaBlock_caption b) (\<lambda>self_caption.
     bind_err (sanitized rt sanitize self_caption) (\<lambda>caption0.
     bind_err (strip_br caption0) (\<lambda>caption.
     bind_err (MediaBlock_stretched b) (\<lambda>stretched.
     bind_err (MediaBlock_with_border b) (\<lambda>with_border.
     bind_err (MediaBlock_with_background b) (\<lambda>with_background.
       let classes = [''cdx-block'', ''media-tool'', ''media-tool--filled'']
                     @ (if py_bool stretched then [''media-tool--stretched''] else [])
                     @ (if py_bool with_border then [''media-tool--withBorder''] else [])
                     @ (if py_bool with_background then [''media-tool--withBackground''] else []);
           classes_string = str_join '' '' classes
       in
     bind_err (MediaBlock_file_mimetype b) (\<lambda>mimetype.
     bind_err (MediaBlock_media rt url mimetype caption) (\<lambda>media.
     bind_err (u_clean rt (PStr caption)) (\<lambda>placeholder.
       Inr (''<div class="'' @ classes_string @ ''">''
            @ ''<figure>''
            @ ''  <div class="media-tool__media">''
            @ media
            @ ''  </div>''
            @ ''<figcaption class="media-tool__caption" data-placeholder="'' @ placeholder @ ''">''
            @ caption @ ''</figcaption>''
            @ ''</figure>''
            @ ''</div>'')))))))))))\<close>

subsection \<open>\<open>TelegramPost\<close>\<close>

definition TelegramPost_messageId :: "EditorJsBlock \<Rightarrow> error + pyval" where
  "TelegramPost_messageId b = py_get (data b) ''messageId'' (PStr [])"

definition TelegramPost_channelName :: "EditorJsBlock \<Rightarrow> error + pyval" where
  "TelegramPost_channelName b = py_get (data b) ''channelName'' (PStr [])"

definition TelegramPost_embed :: "EditorJsBlock \<Rightarrow> error + pyval" where
  "TelegramPost_embed b = py_get (data b) ''embed'' (PStr [])"

definition TelegramPost_caption :: "EditorJsBlock \<Rightarrow> error + pyval" where
  "TelegramPost_caption b = py_get (data b) ''caption'' PNone"

definition TelegramPost_html :: "runtime \<Rightarrow> EditorJsBlock \<Rightarrow> bool \<Rightarrow> error + string" where
  \<open>TelegramPost_html rt b sanitize =
     bind_err (TelegramPost_channelName b) (\<lambda>channelName.
     bind_err (TelegramPost_messageId b) (\<lambda>messageId.
       Inr (''<div class="cdx-block telegram-post">''
            @ ''<script async src="https://telegram.org/js/telegram-widget.js?22" data-telegram-post="''
            @ py_str rt channelName @ ''/'' @ py_str rt messageId
            @ ''" data-width="100%"></script>''
            @ ''</div>'')))\<close>

section \<open>Properties of the rendering\<close>

lemma bind_err_Inl [simp]: "bind_err (Inl e) f = Inl e"
  by (simp add: bind_err_def)

lemma bind_err_Inr [simp]: "bind_err (Inr x) f = f x"
  by (simp add: bind_err_def)

subsection \<open>Code blocks\<close>

text \<open>
  C4. A code block renders to the same string with \<open>sanitize\<close> on and off: \<open>html\<close> never
  looks at the flag and never calls a sanitizer. The code \<open><script>1</script>\<close> comes out
  verbatim inside \<open><pre>\<close> under both flags.
\<close>

theorem CodeBlock_html_ignores_sanitize:
  \<open>CodeBlock_html rt b True = CodeBlock_html rt b False
   \<and> CodeBlock_html rt
         [(''type'', PStr ''code''), (''data'', PDict [(''code'', PStr ''<script>1</script>'')])] True
       = Inr ''<div class="cdx-block ce-code"><pre><script>1</script></pre></div>''
   \<and> CodeBlock_html rt
         [(''type'', PStr ''code''), (''data'', PDict [(''code'', PStr ''<script>1</script>'')])] False
       = Inr ''<div class="cdx-block ce-code"><pre><script>1</script></pre></div>''\<close>
  by (simp add: CodeBlock_html_def CodeBlock_text_def data_def)

subsection \<open>Missing fields\<close>

text \<open>
  C1. The claim is that a block with a missing field still renders, in particular a quote,
  an embed or a media block without \<open>caption\<close> and a media block without
  \<open>file.mimetype\<close>. The code reads a missing caption and a missing mimetype as \<open>None\<close> and
  then calls \<open>endswith\<close> or \<open>startswith\<close> on it: each of the four blocks below raises an
  \<open>AttributeError\<close> instead of returning a string.
\<close>

theorem missing_caption_or_mimetype_raises:
  \<open>QuoteBlock_html rt
       [(''type'', PStr ''quote''),
        (''data'', PDict [(''text'', PStr ''Hi''), (''alignment'', PStr ''left'')])] False
     = Inl AttributeError
   \<and> EmbedBlock_html rt
       [(''type'', PStr ''embed''),
        (''data'', PDict [(''service'', PStr ''youtube''), (''embed'', PStr ''e'')])] False
     = Inl AttributeError
   \<and> MediaBlock_html rt
       [(''type'', PStr ''media''),
        (''data'', PDict [(''file'', PDict [(''mimetype'', PStr ''image/png''),
                                            (''urls'', PDict [(''full'', PStr ''f'')])])])] False
     = Inl AttributeError
   \<and> MediaBlock_html rt
       [(''type'', PStr ''media''),
        (''data'', PDict [(''caption'', PStr ''c''),
                          (''file'', PDict [(''urls'', PDict [(''full'', PStr ''f'')])])])] False
     = Inl AttributeError\<close>
  by (simp add: QuoteBlock_html_def QuoteBlock_caption_def EmbedBlock_html_def
      EmbedBlock_caption_def MediaBlock_html_def MediaBlock_caption_def MediaBlock_file_url_def
      MediaBlock_file_mimetype_def MediaBlock_stretched_def MediaBlock_with_border_def
      MediaBlock_with_background_def MediaBlock_media_def data_def sanitized_def)

subsection \<open>Header levels\<close>

text \<open>
  C2. The claim is that a level that is not an integer raises the parse error. The JSON
  value \<open>true\<close> is not an integer, but \<open>isinstance(True, int)\<close> holds and \<open>True\<close> is in
  \<open>range(1, 7)\<close>, so the check lets it through and the tag is named \<open>hTrue\<close>.
\<close>

theorem HeaderBlock_html_level_true:
  \<open>HeaderBlock_html rt
       [(''type'', PStr ''header''),
        (''data'', PDict [(''text'', PStr ''Hi''), (''level'', PBool True)])] False
     = Inr ''<hTrue class="cdx-block ce-header">Hi</hTrue>''\<close>
  by (simp add: HeaderBlock_html_def HeaderBlock_level_def HeaderBlock_text_def data_def
      sanitized_def)

text \<open>
  What the level check does accept and reject: an integer from 1 to 6 (or no \<open>level\<close> at
  all) names the tag, and every value other than such an integer and \<open>True\<close> raises the
  parse error.
\<close>

lemma HeaderBlock_html_valid_level:
  assumes "data b = PDict d"
    and "(case map_of d ''level'' of None \<Rightarrow> PInt 1 | Some v \<Rightarrow> v) = PInt n"
    and "1 \<le> n" and "n \<le> 6"
    and "map_of d ''text'' = Some (PStr t)"
  shows \<open>HeaderBlock_html rt b sanitize
         = Inr (''<h'' @ str_int n @ '' class="cdx-block ce-header">''
                @ (if sanitize then u_sanitize_str rt t else t) @ ''</h'' @ str_int n @ ''>'')\<close>
  using assms
  by (simp add: HeaderBlock_html_def HeaderBlock_level_def HeaderBlock_text_def sanitized_def)

lemma HeaderBlock_html_invalid_level:
  assumes "data b = PDict d"
    and "map_of d ''level'' = Some v"
    and "v \<noteq> PBool True"
    and "\<And>n. v = PInt n \<Longrightarrow> n < 1 \<or> 6 < n"
  shows \<open>HeaderBlock_html rt b sanitize
         = Inl (EditorJsParseError (''`'' @ py_str rt v @ ''` is not a valid header level.''))\<close>
proof -
  have "\<not> isinstance_int v \<or> \<not> in_range v 1 7"
    using assms(3,4) by (cases v) auto
  then show ?thesis
    using assms(1,2) by (auto simp add: HeaderBlock_html_def HeaderBlock_level_def)
qed

subsection \<open>Lists\<close>




subsection \<open>Quotes\<close>

lemma strip_br_str_cap: "strip_br_str ''cap<br>'' = ''cap''"
  by (simp add: strip_br_str_def endswith_def)

text \<open>
  C5. The quote block with text \<open>Hi<br>\<close>, caption \<open>cap<br>\<close> and alignment \<open>left\<close>
  renders the citation \<open><cite class="ce-quote__caption">cap</cite>\<close>, the trailing
  \<open><br>\<close> of the caption stripped, after the blockquote content \<open>Hi<br>\<close>, whose \<open><br>\<close>
  stays. This holds with \<open>sanitize\<close> off, and with \<open>sanitize\<close> on for a sanitizer that
  returns these three texts as they are (\<open>br\<close> is an allowed tag). And for every quote
  block with a string caption and a string text: when the caption, sanitized if the flag
  is on and then trimmed, is empty, the result has no citation element between the text
  and the end of the blockquote.
\<close>

theorem QuoteBlock_html_caption_trimmed:
  \<open>QuoteBlock_html rt
       [(''type'', PStr ''quote''),
        (''data'', PDict [(''text'', PStr ''Hi<br>''), (''caption'', PStr ''cap<br>''),
                          (''alignment'', PStr ''left'')])] False
     = Inr ''<div class="cdx-block ce-quote ce-quote-with-align-left ce-quote-with-caption">      <blockquote class="ce-quote__blockquote">Hi<br><cite class="ce-quote__caption">cap</cite>      </blockquote></div>''
   \<and> (u_sanitize_str rt ''cap<br>'' = ''cap<br>'' \<and> u_sanitize_str rt ''cap'' = ''cap''
       \<and> u_sanitize_str rt ''Hi<br>'' = ''Hi<br>''
     \<longrightarrow> QuoteBlock_html rt
           [(''type'', PStr ''quote''),
            (''data'', PDict [(''text'', PStr ''Hi<br>''), (''caption'', PStr ''cap<br>''),
                              (''alignment'', PStr ''left'')])] True
         = Inr ''<div class="cdx-block ce-quote ce-quote-with-align-left ce-quote-with-caption">      <blockquote class="ce-quote__blockquote">Hi<br><cite class="ce-quote__caption">cap</cite>      </blockquote></div>'')
   \<and> (data b = PDict d \<and> map_of d ''caption'' = Some (PStr c)
       \<and> map_of d ''text'' = Some (PStr t)
       \<and> strip_br_str (if sanitize then u_sanitize_str rt c else c) = []
     \<longrightarrow> QuoteBlock_html rt b sanitize
         = Inr (''<div class="cdx-block ce-quote ce-quote-with-align-''
                @ py_str rt (case map_of d ''alignment'' of None \<Rightarrow> PNone | Some v \<Rightarrow> v)
                @ (if c \<noteq> [] then '' ce-quote-with-caption'' else []) @ ''">''
                @ ''      <blockquote class="ce-quote__blockquote">''
                @ (if sanitize then u_sanitize_str rt t else t)
                @ ''      </blockquote></div>''))\<close>
  by (simp add: QuoteBlock_html_def QuoteBlock_caption_def QuoteBlock_text_def
      QuoteBlock_alignment_def sanitized_def data_def strip_br_str_cap)

theorem QuoteBlock_html_caption_trimmed_witness:
  \<open>QuoteBlock_html plain_runtime
       [(''type'', PStr ''quote''),
        (''data'', PDict [(''text'', PStr ''Hi<br>''), (''caption'', PStr ''cap<br>''),
                          (''alignment'', PStr ''left'')])] True
     = Inr ''<div class="cdx-block ce-quote ce-quote-with-align-left ce-quote-with-caption">      <blockquote class="ce-quote__blockquote">Hi<br><cite class="ce-quote__caption">cap</cite>      </blockquote></div>''
   \<and> QuoteBlock_html plain_runtime
       [(''type'', PStr ''quote''),
        (''data'', PDict [(''text'', PStr ''Hi''), (''caption'', PStr ''<br>''),
                          (''alignment'', PStr ''left'')])] False
     = Inr ''<div class="cdx-block ce-quote ce-quote-with-align-left ce-quote-with-caption">      <blockquote class="ce-quote__blockquote">Hi      </blockquote></div>''\<close>
  using
    QuoteBlock_html_caption_trimmed [where rt = plain_runtime and sanitize = False
      and b = "[(''type'', PStr ''quote''),
                (''data'', PDict [(''text'', PStr ''Hi''), (''caption'', PStr ''<br>''),
                                  (''alignment'', PStr ''left'')])]"
      and d = "[(''text'', PStr ''Hi''), (''caption'', PStr ''<br>''),
                (''alignment'', PStr ''left'')]"
      and c = "''<br>''" and t = "''Hi''"]
  by (simp add: data_def u_sanitize_str_def plain_runtime_def strip_br_str_def endswith_def)

subsection \<open>Media\<close>

text \<open>
  C6, as the code has it. For a media block with a string caption whose mimetype starts
  with \<open>image\<close> and does not contain \<open>image/svg\<close>, with the urls \<open>full\<close>, \<open>normal\<close>,
  \<open>medium\<close> and \<open>small\<close> bound to the strings \<open>f\<close>, \<open>n\<close>, \<open>m\<close> and \<open>s\<close>: the result holds the
  \<open>img\<close> tag with \<open>src="f"\<close> and \<open>srcset="n 1080w, m 720w, s 480w"\<close>. For a media block with
  a string caption and a mapping as \<open>file.urls\<close> whose mimetype starts with \<open>image\<close> and
  contains \<open>image/svg\<close>: the \<open>img\<close> tag has the \<open>src\<close> and \<open>alt\<close> attributes only, and its
  \<open>src\<close> is the \<open>full\<close> entry of that mapping, or empty when it has none. The caption is
  the block's, sanitized when the flag is on, without its trailing \<open><br>\<close>.
\<close>

theorem MediaBlock_html_img_srcset:
  \<open>(data b = PDict d \<and> map_of d ''caption'' = Some (PStr c)
     \<and> map_of d ''file'' = Some (PDict fl)
     \<and> map_of fl ''mimetype'' = Some (PStr mimetype)
     \<and> startswith mimetype ''image'' \<and> \<not> str_contains ''image/svg'' mimetype
     \<and> map_of fl ''urls'' = Some (PDict urls)
     \<and> map_of urls ''full'' = Some (PStr f) \<and> map_of urls ''normal'' = Some (PStr n)
     \<and> map_of urls ''medium'' = Some (PStr m) \<and> map_of urls ''small'' = Some (PStr s)
     \<and> caption = strip_br_str (if sanitize then u_sanitize_str rt c else c)
     \<longrightarrow> (\<exists>classes. MediaBlock_html rt b sanitize
           = Inr (''<div class="'' @ classes @ ''"><figure>  <div class="media-tool__media">''
                  @ ''     <img class="media-tool__media-picture" src="'' @ f @ ''" srcset="''
                  @ n @ '' 1080w, '' @ m @ '' 720w, '' @ s @ '' 480w" alt="''
                  @ u_clean_str rt caption @ ''" />''
                  @ ''  </div><figcaption class="media-tool__caption" data-placeholder="''
                  @ u_clean_str rt caption @ ''">'' @ caption
                  @ ''</figcaption></figure></div>'')))
   \<and> (data b = PDict d \<and> map_of d ''caption'' = Some (PStr c)
       \<and> map_of d ''file'' = Some (PDict fl)
       \<and> map_of fl ''mimetype'' = Some (PStr mimetype)
       \<and> startswith mimetype ''image'' \<and> str_contains ''image/svg'' mimetype
       \<and> map_of fl ''urls'' = Some (PDict urls)
       \<and> full = (case map_of urls ''full'' of None \<Rightarrow> PStr [] | Some v \<Rightarrow> v)
       \<and> caption = strip_br_str (if sanitize then u_sanitize_str rt c else c)
     \<longrightarrow> (\<exists>classes. MediaBlock_html rt b sanitize
           = Inr (''<div class="'' @ classes @ ''"><figure>  <div class="media-tool__media">''
                  @ ''     <img class="media-tool__media-picture" src="'' @ py_str rt full
                  @ ''" alt="''
                  @ u_clean_str rt caption @ ''" />''
                  @ ''  </div><figcaption class="media-tool__caption" data-placeholder="''
                  @ u_clean_str rt caption @ ''">'' @ caption
                  @ ''</figcaption></figure></div>'')))\<close>
  by (simp add: MediaBlock_html_def MediaBlock_caption_def MediaBlock_file_url_def
      MediaBlock_file_mimetype_def MediaBlock_stretched_def MediaBlock_with_border_def
      MediaBlock_with_background_def MediaBlock_media_def MediaBlock_srcset_def sanitized_def
      Let_def)

theorem MediaBlock_html_img_srcset_witness:
  \<open>(\<exists>classes. MediaBlock_html plain_runtime
       [(''type'', PStr ''media''),
        (''data'', PDict [(''caption'', PStr ''c''),
                          (''file'', PDict [(''mimetype'', PStr ''image/png''),
                                            (''urls'', PDict [(''full'', PStr ''f''),
                                                              (''normal'', PStr ''n''),
                                                              (''medium'', PStr ''m''),
                                                              (''small'', PStr ''s'')])])])] False
     = Inr (''<div class="'' @ classes @ ''"><figure>  <div class="media-tool__media">     <img class="media-tool__media-picture" src="f" srcset="n 1080w, m 720w, s 480w" alt="c" />  </div><figcaption class="media-tool__caption" data-placeholder="c">c</figcaption></figure></div>''))
   \<and> (\<exists>classes. MediaBlock_html plain_runtime
       [(''type'', PStr ''media''),
        (''data'', PDict [(''caption'', PStr ''c''),
                          (''file'', PDict [(''mimetype'', PStr ''image/svg+xml''),
                                            (''urls'', PDict [(''full'', PStr ''f''),
                                                              (''normal'', PStr ''n''),
                                                              (''medium'', PStr ''m''),
                                                              (''small'', PStr ''s'')])])])] False
     = Inr (''<div class="'' @ classes @ ''"><figure>  <div class="media-tool__media">     <img class="media-tool__media-picture" src="f" alt="c" />  </div><figcaption class="media-tool__caption" data-placeholder="c">c</figcaption></figure></div>''))\<close>
  using
    MediaBlock_html_img_srcset [where rt = plain_runtime and sanitize = False
      and b = "[(''type'', PStr ''media''),
        (''data'', PDict [(''caption'', PStr ''c''),
                          (''file'', PDict [(''mimetype'', PStr ''image/png''),
                                            (''urls'', PDict [(''full'', PStr ''f''),
                                                              (''normal'', PStr ''n''),
                                                              (''medium'', PStr ''m''),
                                                              (''small'', PStr ''s'')])])])]"
      and d = "[(''caption'', PStr ''c''),
                (''file'', PDict [(''mimetype'', PStr ''image/png''),
                                  (''urls'', PDict [(''full'', PStr ''f''),
                                                    (''normal'', PStr ''n''),
                                                    (''medium'', PStr ''m''),
                                                    (''small'', PStr ''s'')])])]"
      and c = "''c''"
      and fl = "[(''mimetype'', PStr ''image/png''),
                   (''urls'', PDict [(''full'', PStr ''f''), (''normal'', PStr ''n''),
                                     (''medium'', PStr ''m''), (''small'', PStr ''s'')])]"
      and mimetype = "''image/png''"
      and urls = "[(''full'', PStr ''f''), (''normal'', PStr ''n''),
                   (''medium'', PStr ''m''), (''small'', PStr ''s'')]"
      and f = "''f''" and n = "''n''" and m = "''m''" and s = "''s''" and caption = "''c''"]
    MediaBlock_html_img_srcset [where rt = plain_runtime and sanitize = False
      and b = "[(''type'', PStr ''media''),
        (''data'', PDict [(''caption'', PStr ''c''),
                          (''file'', PDict [(''mimetype'', PStr ''image/svg+xml''),
                                            (''urls'', PDict [(''full'', PStr ''f''),
                                                              (''normal'', PStr ''n''),
                                                              (''medium'', PStr ''m''),
                                                              (''small'', PStr ''s'')])])])]"
      and d = "[(''caption'', PStr ''c''),
                (''file'', PDict [(''mimetype'', PStr ''image/svg+xml''),
                                  (''urls'', PDict [(''full'', PStr ''f''),
                                                    (''normal'', PStr ''n''),
                                                    (''medium'', PStr ''m''),
                                                    (''small'', PStr ''s'')])])]"
      and c = "''c''"
      and fl = "[(''mimetype'', PStr ''image/svg+xml''),
                   (''urls'', PDict [(''full'', PStr ''f''), (''normal'', PStr ''n''),
                                     (''medium'', PStr ''m''), (''small'', PStr ''s'')])]"
      and mimetype = "''image/svg+xml''"
      and urls = "[(''full'', PStr ''f''), (''normal'', PStr ''n''),
                   (''medium'', PStr ''m''), (''small'', PStr ''s'')]"
      and full = "PStr ''f''" and caption = "''c''"]
  by (simp add: data_def startswith_def strip_br_str_def endswith_def u_clean_str_def
      plain_runtime_def)

text \<open>
  The claim as it was written asks an \<open>img\<close> tag of every media block whose mimetype
  contains \<open>image/svg\<close>. The code looks for \<open>image/svg\<close> only in a mimetype that starts with
  \<open>image\<close>: the mimetype \<open>x-image/svg+xml\<close> contains it, and the block renders no \<open>img\<close> tag.
\<close>

theorem MediaBlock_html_svg_substring_no_img:
  \<open>str_contains ''image/svg'' ''x-image/svg+xml''
   \<and> MediaBlock_html plain_runtime
       [(''type'', PStr ''media''),
        (''data'', PDict [(''caption'', PStr ''c''),
                          (''file'', PDict [(''mimetype'', PStr ''x-image/svg+xml''),
                                            (''urls'', PDict [(''full'', PStr ''f''),
                                                              (''normal'', PStr ''n''),
                                                              (''medium'', PStr ''m''),
                                                              (''small'', PStr ''s'')])])])] False
     = Inr ''<div class="cdx-block media-tool media-tool--filled"><figure>  <div class="media-tool__media">  </div><figcaption class="media-tool__caption" data-placeholder="c">c</figcaption></figure></div>''
   \<and> str_contains ''<img'' ''<div class="cdx-block media-tool media-tool--filled"><figure>  <div class="media-tool__media">  </div><figcaption class="media-tool__caption" data-placeholder="c">c</figcaption></figure></div>'' = False\<close>
  by (simp add: MediaBlock_html_def MediaBlock_caption_def MediaBlock_file_url_def
      MediaBlock_file_mimetype_def MediaBlock_stretched_def MediaBlock_with_border_def
      MediaBlock_with_background_def MediaBlock_media_def MediaBlock_srcset_def sanitized_def
      Let_def data_def startswith_def strip_br_str_def endswith_def u_clean_str_def
      plain_runtime_def)

subsection \<open>Embeds\<close>

text \<open>
  C7. For an embed block with a string caption: with the service \<open>youtube\<close> the result
  holds one \<open>iframe\<close> element, whose \<open>src\<close> is the \<open>embed\<close> field, inside the figure; with a
  service that is neither \<open>youtube\<close> nor \<open>twitter\<close> (absent included) the
  \<open>embed-tool__embed\<close> element is empty, with no \<open>iframe\<close> and no \<open>blockquote\<close>, and the
  figure still holds the \<open>figcaption\<close> with the caption.
\<close>

theorem EmbedBlock_html_by_service:
  \<open>(data b = PDict d \<and> map_of d ''caption'' = Some (PStr c)
     \<and> map_of d ''service'' = Some (PStr ''youtube'')
     \<longrightarrow> EmbedBlock_html rt b sanitize
         = Inr (''<div class="cdx-block embed-tool embed-tool-youtube"><figure><div class="embed-tool__embed">''
                @ ''<iframe src="''
                @ py_str rt (case map_of d ''embed'' of None \<Rightarrow> PStr [] | Some v \<Rightarrow> v)
                @ ''" width="100%" style="aspect-ratio: 16/9" frameborder="0" allow="accelerometer; autoplay; clipboard-write; encrypted-media; gyroscope; picture-in-picture; web-share" allowfullscreen></iframe>''
                @ ''</div><figcaption class="embed-tool__caption">''
                @ strip_br_str (if sanitize then u_sanitize_str rt c else c)
                @ ''</figcaption></figure></div>''))
   \<and> (data b = PDict d \<and> map_of d ''caption'' = Some (PStr c)
       \<and> service = (case map_of d ''service'' of None \<Rightarrow> PStr [] | Some v \<Rightarrow> v)
       \<and> service \<noteq> PStr ''youtube'' \<and> service \<noteq> PStr ''twitter''
     \<longrightarrow> EmbedBlock_html rt b sanitize
         = Inr (''<div class="cdx-block embed-tool embed-tool-'' @ py_str rt service
                @ ''"><figure><div class="embed-tool__embed">''
                @ ''</div><figcaption class="embed-tool__caption">''
                @ strip_br_str (if sanitize then u_sanitize_str rt c else c)
                @ ''</figcaption></figure></div>''))\<close>
  by (auto simp add: EmbedBlock_html_def EmbedBlock_caption_def EmbedBlock_service_def
      EmbedBlock_embed_def sanitized_def)

theorem EmbedBlock_html_by_service_witness:
  \<open>EmbedBlock_html plain_runtime
       [(''type'', PStr ''embed''),
        (''data'', PDict [(''service'', PStr ''youtube''), (''embed'', PStr ''e''),
                          (''caption'', PStr ''cap<br>'')])] False
     = Inr ''<div class="cdx-block embed-tool embed-tool-youtube"><figure><div class="embed-tool__embed"><iframe src="e" width="100%" style="aspect-ratio: 16/9" frameborder="0" allow="accelerometer; autoplay; clipboard-write; encrypted-media; gyroscope; picture-in-picture; web-share" allowfullscreen></iframe></div><figcaption class="embed-tool__caption">cap</figcaption></figure></div>''
   \<and> EmbedBlock_html plain_runtime
       [(''type'', PStr ''embed''),
        (''data'', PDict [(''service'', PStr ''vimeo''), (''embed'', PStr ''e''),
                          (''caption'', PStr ''cap'')])] True
     = Inr ''<div class="cdx-block embed-tool embed-tool-vimeo"><figure><div class="embed-tool__embed"></div><figcaption class="embed-tool__caption">cap</figcaption></figure></div>''\<close>
  using
    EmbedBlock_html_by_service [where rt = plain_runtime and sanitize = False
      and b = "[(''type'', PStr ''embed''),
                (''data'', PDict [(''service'', PStr ''youtube''), (''embed'', PStr ''e''),
                                  (''caption'', PStr ''cap<br>'')])]"
      and d = "[(''service'', PStr ''youtube''), (''embed'', PStr ''e''),
                (''caption'', PStr ''cap<br>'')]"
      and c = "''cap<br>''"]
    EmbedBlock_html_by_service [where rt = plain_runtime and sanitize = True
      and b = "[(''type'', PStr ''embed''),
                (''data'', PDict [(''service'', PStr ''vimeo''), (''embed'', PStr ''e''),
                                  (''caption'', PStr ''cap'')])]"
      and d = "[(''service'', PStr ''vimeo''), (''embed'', PStr ''e''),
                (''caption'', PStr ''cap'')]"
      and c = "''cap''" and service = "PStr ''vimeo''"]
  by (simp add: data_def strip_br_str_def endswith_def u_sanitize_str_def plain_runtime_def)

subsection \<open>Telegram posts\<close>

text \<open>
  C9. A telegram-post block renders the widget script whose \<open>data-telegram-post\<close> is the
  channel name, a slash and the message id (each the empty string when absent). Two
  blocks with the same channel name and the same message id render to the same string,
  whatever their captions and whatever the two \<open>sanitize\<close> flags are.
\<close>

theorem TelegramPost_html_address:
  \<open>(data b = PDict d
     \<longrightarrow> TelegramPost_html rt b sanitize
         = Inr (''<div class="cdx-block telegram-post"><script async src="https://telegram.org/js/telegram-widget.js?22" data-telegram-post="''
                @ py_str rt (case map_of d ''channelName'' of None \<Rightarrow> PStr [] | Some v \<Rightarrow> v)
                @ ''/''
                @ py_str rt (case map_of d ''messageId'' of None \<Rightarrow> PStr [] | Some v \<Rightarrow> v)
                @ ''" data-width="100%"></script></div>''))
   \<and> (data b = PDict d \<and> data b' = PDict d'
       \<and> map_of d ''channelName'' = map_of d' ''channelName''
       \<and> map_of d ''messageId'' = map_of d' ''messageId''
     \<longrightarrow> TelegramPost_html rt b sanitize = TelegramPost_html rt b' sanitize')\<close>
  by (simp add: TelegramPost_html_def TelegramPost_channelName_def TelegramPost_messageId_def)

theorem TelegramPost_html_address_witness:
  \<open>TelegramPost_html plain_runtime
       [(''type'', PStr ''telegramPost''),
        (''data'', PDict [(''channelName'', PStr ''chan''), (''messageId'', PInt 42),
                          (''caption'', PStr ''cap'')])] True
     = Inr ''<div class="cdx-block telegram-post"><script async src="https://telegram.org/js/telegram-widget.js?22" data-telegram-post="chan/42" data-width="100%"></script></div>''
   \<and> TelegramPost_html plain_runtime
       [(''type'', PStr ''telegramPost''),
        (''data'', PDict [(''channelName'', PStr ''chan''), (''messageId'', PInt 42),
                          (''caption'', PStr ''cap'')])] True
     = TelegramPost_html plain_runtime
       [(''type'', PStr ''telegramPost''),
        (''data'', PDict [(''channelName'', PStr ''chan''), (''messageId'', PInt 42)])] False\<close>
  using
    TelegramPost_html_address [where rt = plain_runtime and sanitize = True
      and sanitize' = False
      and b = "[(''type'', PStr ''telegramPost''),
                (''data'', PDict [(''channelName'', PStr ''chan''), (''messageId'', PInt 42),
                                  (''caption'', PStr ''cap'')])]"
      and d = "[(''channelName'', PStr ''chan''), (''messageId'', PInt 42),
                (''caption'', PStr ''cap'')]"
      and b' = "[(''type'', PStr ''telegramPost''),
                 (''data'', PDict [(''channelName'', PStr ''chan''), (''messageId'', PInt 42)])]"
      and d' = "[(''channelName'', PStr ''chan''), (''messageId'', PInt 42)]"]
  by (auto simp add: data_def str_int_def digit_char_def)

subsection \<open>Paragraph alignment\<close>

text \<open>
  C10. A paragraph block whose tunes bind \<open>AlignmentTune\<close> to a mapping without the key
  \<open>alignment\<close> raises \<open>KeyError\<close>. The default \<open>left\<close> is the alignment when the tunes have
  no \<open>AlignmentTune\<close> entry at all.
\<close>

theorem ParagraphBlock_html_alignment_default:
  \<open>(tunes b = PDict t \<and> map_of t ''AlignmentTune'' = Some (PDict a)
     \<and> map_of a ''alignment'' = None
     \<longrightarrow> ParagraphBlock_html rt b sanitize = Inl (KeyError ''alignment''))
   \<and> (tunes b = PDict t \<and> map_of t ''AlignmentTune'' = None
       \<and> data b = PDict d \<and> map_of d ''text'' = Some (PStr s)
     \<longrightarrow> ParagraphBlock_html rt b sanitize
         = Inr (''<p style="text-align: left" class="cdx-block ce-paragraph">''
                @ (if sanitize then u_sanitize_str rt s else s) @ ''</p>''))\<close>
  by (simp add: ParagraphBlock_html_def ParagraphBlock_text_def sanitized_def)

theorem ParagraphBlock_html_alignment_default_witness:
  \<open>ParagraphBlock_html plain_runtime
       [(''type'', PStr ''paragraph''), (''data'', PDict [(''text'', PStr ''Hi'')]),
        (''tunes'', PDict [(''AlignmentTune'', PDict [])])] False
     = Inl (KeyError ''alignment'')
   \<and> ParagraphBlock_html plain_runtime
       [(''type'', PStr ''paragraph''), (''data'', PDict [(''text'', PStr ''Hi'')])] True
     = Inr ''<p style="text-align: left" class="cdx-block ce-paragraph">Hi</p>''\<close>
  using
    ParagraphBlock_html_alignment_default [where rt = plain_runtime and sanitize = False
      and b = "[(''type'', PStr ''paragraph''), (''data'', PDict [(''text'', PStr ''Hi'')]),
                (''tunes'', PDict [(''AlignmentTune'', PDict [])])]"
      and t = "[(''AlignmentTune'', PDict [])]" and a = "[]"]
    ParagraphBlock_html_alignment_default [where rt = plain_runtime and sanitize = True
      and b = "[(''type'', PStr ''paragraph''), (''data'', PDict [(''text'', PStr ''Hi'')])]"
      and t = "[]" and d = "[(''text'', PStr ''Hi'')]" and s = "''Hi''"]
  by (simp add: tunes_def data_def u_sanitize_str_def plain_runtime_def)

end
